theory Spec2Isabelle
  imports Main "HOL-Library.AList"
begin

section \<open>Strings\<close>

text \<open>
  Strings are lists of characters. The case mappings of JavaScript
  (\<open>toUpperCase\<close>, \<open>toLowerCase\<close>) are modelled on the ASCII letters and leave
  every other character as it is, so the model is that of the code on strings of ASCII
  characters; JavaScript also maps letters outside ASCII.
\<close>

definition toUpperCase_char :: "char \<Rightarrow> char" where
  "toUpperCase_char c =
     (case map_of (zip ''abcdefghijklmnopqrstuvwxyz'' ''ABCDEFGHIJKLMNOPQRSTUVWXYZ'') c of
        None \<Rightarrow> c
      | Some u \<Rightarrow> u)"

definition toLowerCase_char :: "char \<Rightarrow> char" where
  "toLowerCase_char c =
     (case map_of (zip ''ABCDEFGHIJKLMNOPQRSTUVWXYZ'' ''abcdefghijklmnopqrstuvwxyz'') c of
        None \<Rightarrow> c
      | Some l \<Rightarrow> l)"

definition toUpperCase :: "string \<Rightarrow> string" where
  "toUpperCase s = map toUpperCase_char s"

definition toLowerCase :: "string \<Rightarrow> string" where
  "toLowerCase s = map toLowerCase_char s"

text \<open>lodash \<open>upperFirst\<close>: the first character in upper case, the rest untouched.\<close>

fun upperFirst :: "string \<Rightarrow> string" where
  "upperFirst [] = []"
| "upperFirst (c # cs) = toUpperCase_char c # cs"

text \<open>lodash \<open>capitalize\<close>: \<open>upperFirst\<close> of the lower-cased string.\<close>

definition capitalize :: "string \<Rightarrow> string" where
  "capitalize s = upperFirst (toLowerCase s)"

text \<open>lodash \<open>startsWith(string, target)\<close>.\<close>

definition startsWith :: "string \<Rightarrow> string \<Rightarrow> bool" where
  "startsWith s target = (take (length target) s = target)"

text \<open>
  lodash \<open>trim(string, chars)\<close>: the characters of \<open>chars\<close> are removed from both
  ends of the string, and only there.
\<close>

definition trim :: "string \<Rightarrow> string \<Rightarrow> string" where
  "trim s chars =
     rev (dropWhile (\<lambda>c. c \<in> set chars) (rev (dropWhile (\<lambda>c. c \<in> set chars) s)))"

text \<open>
  lodash \<open>replace(string, pattern, replacement)\<close> is \<open>String.prototype.replace\<close>;
  with a string as pattern it replaces the first occurrence only.
\<close>

fun replace :: "string \<Rightarrow> string \<Rightarrow> string \<Rightarrow> string" where
  "replace [] pattern replacement = (if pattern = [] then replacement else [])"
| "replace (c # cs) pattern replacement =
     (if take (length pattern) (c # cs) = pattern
      then replacement @ drop (length pattern) (c # cs)
      else c # replace cs pattern replacement)"

text \<open>
  \<open>String.prototype.split\<close> with a one-character separator: the pieces between the
  separators, empty pieces included, so that the result is never empty.
\<close>

fun split :: "string \<Rightarrow> char \<Rightarrow> string list" where
  "split [] sep = [[]]"
| "split (c # cs) sep =
     (if c = sep then [] # split cs sep
      else (case split cs sep of
              [] \<Rightarrow> [[c]]
            | w # ws \<Rightarrow> (c # w) # ws))"

text \<open>A template literal prints an absent value as \<open>undefined\<close>.\<close>

definition template :: "string option \<Rightarrow> string" where
  "template v = (case v of None \<Rightarrow> ''undefined'' | Some s \<Rightarrow> s)"

section \<open>Objects used as dictionaries\<close>

text \<open>
  A plain object that the code uses as a dictionary is an association list in
  insertion order: \<open>obj[k]\<close> is \<^const>\<open>map_of\<close> and \<open>obj[k] = v\<close> is
  \<open>set_property\<close>, which overwrites the value of a key in place and appends a new
  key at the end. The one name that is no dictionary key is \<open>__proto__\<close>: the
  objects of the code are literals \<open>{}\<close>, and on these the assignment
  \<open>obj['__proto__'] = v\<close> of an object \<open>v\<close> makes \<open>v\<close> the prototype of
  \<open>obj\<close> and adds no own property. \<open>Object.keys\<close> and \<open>Object.values\<close> list
  the own properties: first the keys that are array indices (canonical decimal
  numerals below \<open>2\<^sup>3\<^sup>2 - 1\<close>) in ascending order, then all other keys in
  insertion order.
\<close>

type_synonym 'v object = "(string \<times> 'v) list"

definition set_property :: "string \<Rightarrow> 'v \<Rightarrow> 'v object \<Rightarrow> 'v object" where
  "set_property k v obj = (if k = ''__proto__'' then obj else AList.update k v obj)"

definition digit :: "char \<Rightarrow> int option" where
  "digit c = map_of (zip ''0123456789'' [0, 1, 2, 3, 4, 5, 6, 7, 8, 9]) c"

fun numeral_value :: "int \<Rightarrow> string \<Rightarrow> int option" where
  "numeral_value n [] = Some n"
| "numeral_value n (c # cs) =
     (case digit c of
        None \<Rightarrow> None
      | Some d \<Rightarrow> numeral_value (10 * n + d) cs)"

definition array_index :: "string \<Rightarrow> int option" where
  "array_index k =
     (if k = [] then None
      else if hd k = CHR ''0'' \<and> tl k \<noteq> [] then None
      else (case numeral_value 0 k of
              None \<Rightarrow> None
            | Some n \<Rightarrow> if n < 4294967295 then Some n else None))"

definition index_of :: "string \<times> 'v \<Rightarrow> int" where
  "index_of p = (case array_index (fst p) of None \<Rightarrow> 0 | Some n \<Rightarrow> n)"

definition own_properties :: "'v object \<Rightarrow> 'v object" where
  "own_properties obj =
     sort_key index_of (filter (\<lambda>p. array_index (fst p) \<noteq> None) obj)
     @ filter (\<lambda>p. array_index (fst p) = None) obj"

definition Object_keys :: "'v object \<Rightarrow> string list" where
  "Object_keys obj = map fst (own_properties obj)"

definition Object_values :: "'v object \<Rightarrow> 'v list" where
  "Object_values obj = map snd (own_properties obj)"

text \<open>
  \<open>obj[k]\<close> for a key \<open>k\<close> that \<open>Object.keys(obj)\<close> has listed, where the
  value is an array.
\<close>

definition lookup :: "'a list object \<Rightarrow> string \<Rightarrow> 'a list" where
  "lookup obj k = (case map_of obj k of None \<Rightarrow> [] | Some v \<Rightarrow> v)"

section \<open>The configuration document\<close>

text \<open>
  The document is the object that \<open>yaml.safeLoad\<close> returns. Its typed projection
  keeps the fields that the code reads or writes, each with the type the code uses it
  at; a field that the object does not have is \<open>None\<close>, and \<open>others\<close> maps
  every other top-level key to its value. The names of fields that several objects
  share (\<open>name\<close>, \<open>api\<close>, \<open>method\<close>, \<open>resource\<close>) carry a prefix for the
  object they belong to. Objects are trees: no two entries share a sub-object.
\<close>

datatype yaml = Null | Bool bool | Num int | Str string | Seq "yaml list"
  | Mapping "(string \<times> yaml) list"

record api_decl =
  api_name :: string

record route =
  rt_api :: string
  rt_path :: string
  rt_method :: string
  rt_cors :: bool

record service =
  svc_fields :: "yaml object"
  lambdaName :: "string option"

record lambda =
  lam_name :: string
  memory :: "int option"
  timeout :: "int option"
  envs :: "yaml list option"
  services :: "service list option"
  fullName :: "string option"
  apiGateway :: "route list option"

record resource_node =
  res_name :: string
  pathPart :: string
  parents :: "string list"
  res_api :: string

record method_node =
  m_name :: string
  m_method :: string
  m_cors :: bool
  m_resource :: string
  m_lambda :: string
  m_api :: string

record options_node =
  o_name :: string
  o_resource :: string
  o_api :: string

record method_ref =
  ref_name :: string

record dependency =
  dep_name :: string
  dep_methods :: "method_ref list"

record document =
  stackName :: "string option"
  stage :: "string option"
  apis :: "api_decl list option"
  lambdas :: "lambda list option"
  apiMethods :: "method_node list option"
  apiResources :: "resource_node list option"
  apiMethodsOptions :: "options_node list option"
  apiDependencies :: "dependency list option"
  others :: "string \<rightharpoonup> yaml"

section \<open>Errors\<close>

text \<open>
  An exception is a value. \<open>TypeError\<close> carries the lines written to
  \<open>console.error\<close> before the exception left the function; \<open>Exception\<close> is an
  exception of a collaborator (file system, template renderer, YAML parser).
\<close>

datatype error = TypeError "string list" | Exception

section \<open>configureApiGateway\<close>

text \<open>
  The local variables of \<open>configureApiGateway\<close>: the array \<open>apiMethods\<close> and the
  three objects \<open>apiMethodsOptions\<close>, \<open>apiDependencies\<close> and \<open>apiResources\<close>.
  Of \<open>apiResources\<close> and \<open>apiMethodsOptions\<close> the code reads the own properties
  only. It reads \<open>apiDependencies[api.api]\<close>, which also finds what the prototype
  has, so the model keeps the prototype of \<open>apiDependencies\<close> where it can matter:
  \<open>l_prototype\<close> is the array that an assignment
  \<open>apiDependencies['__proto__'] = []\<close> has made the prototype, and \<open>None\<close> as long
  as the prototype is \<open>Object.prototype\<close>.
\<close>

record locals =
  l_apiMethods :: "method_node list"
  l_apiMethodsOptions :: "options_node object"
  l_apiDependencies :: "method_ref list object"
  l_prototype :: "method_ref list option"
  l_apiResources :: "resource_node object"

text \<open>
  The body of \<open>config.apis.forEach\<close>: \<open>apiDependencies[api.name] = []\<close>.
\<close>

definition declare_api :: "locals \<Rightarrow> api_decl \<Rightarrow> locals" where
  "declare_api l api =
     (if api_name api = ''__proto__''
      then l\<lparr>l_prototype := Some []\<rparr>
      else l\<lparr>l_apiDependencies := AList.update (api_name api) [] (l_apiDependencies l)\<rparr>)"

text \<open>
  \<open>apiDependencies[k]\<close> where it is an array: the own property \<open>k\<close>, or for
  \<open>__proto__\<close> the array that is the prototype. Whatever else the lookup finds is
  \<open>undefined\<close> or inherited (a method or the \<open>length\<close> of the prototype, or an
  element of the array that is the prototype): it has no method \<open>push\<close>, and
  the call throws a \<open>TypeError\<close>.
\<close>

definition dependencies_of :: "locals \<Rightarrow> string \<Rightarrow> method_ref list option" where
  "dependencies_of l k =
     (if k = ''__proto__'' then l_prototype l else map_of (l_apiDependencies l) k)"

text \<open>
  The name that the body of \<open>segments.forEach\<close> pushes onto \<open>segmentNames\<close>
  (lines 83 to 93): a segment that starts with a brace loses the braces at its ends
  and one underscore and gains \<open>Var\<close>; then the first letter is put in upper case.
\<close>

definition display_name :: "string \<Rightarrow> string" where
  "display_name segment =
     upperFirst
       (if startsWith segment ''{''
        then replace (trim segment ''{}'') ''_'' '''' @ ''Var''
        else segment)"

text \<open>
  The body of \<open>segments.forEach((segment, index) => ...)\<close>, run over the segments
  from \<open>index\<close> on; the state is the array \<open>segmentNames\<close> and the object
  \<open>apiResources\<close> (here \<open>resources\<close>).
\<close>

fun forEach_segment ::
  "string \<Rightarrow> nat \<Rightarrow> string list \<Rightarrow> string list \<times> resource_node object
     \<Rightarrow> string list \<times> resource_node object" where
  "forEach_segment api index [] (segmentNames, resources) = (segmentNames, resources)"
| "forEach_segment api index (segment # rest) (segmentNames, resources) =
     (let name = display_name segment;
          segmentNames = segmentNames @ [name];
          parents = (if index = 0
                     then [''Fn::GetAtt:'', ''- '' @ api @ ''RestApi'', ''- RootResourceId'']
                     else [''Ref: ApiGateWayResource'' @ concat (take index segmentNames)]);
          name = (if index = 0 then name else concat segmentNames)
      in forEach_segment api (Suc index) rest
           (segmentNames,
            set_property name
              \<lparr>res_name = ''ApiGateWayResource'' @ name, pathPart = segment,
               parents = parents, res_api = api\<rparr>
              resources))"

text \<open>
  The body of \<open>for (const api of lambda.apiGateway)\<close>. When
  \<open>apiDependencies[api.api]\<close> is no array, the \<open>push\<close> throws a \<open>TypeError\<close>,
  which the \<open>catch\<close> logs and throws again. Otherwise the \<open>push\<close> appends to
  the array in place, be it the value of an own property or the prototype.
\<close>

definition for_api :: "string \<Rightarrow> locals \<Rightarrow> route \<Rightarrow> error + locals" where
  "for_api lambda_name l api =
     (let segments = split (rt_path api) CHR ''/'';
          (segmentNames, resources) =
             forEach_segment (rt_api api) 0 segments ([], l_apiResources l);
          method = capitalize (rt_method api);
          name = concat segmentNames;
          methodName = ''ApiGatewayMethod'' @ name @ capitalize method;
          methods = l_apiMethods l @
             [\<lparr>m_name = methodName, m_method = toUpperCase method, m_cors = rt_cors api,
               m_resource = ''ApiGateWayResource'' @ name, m_lambda = lambda_name,
               m_api = rt_api api\<rparr>]
      in case dependencies_of l (rt_api api) of
           None \<Rightarrow> Inl (TypeError [rt_api api @ '' is not defined''])
         | Some dependencies \<Rightarrow>
             Inr \<lparr>l_apiMethods = methods,
                  l_apiMethodsOptions =
                    (if rt_cors api
                     then set_property name
                            \<lparr>o_name = ''ApiGatewayMethod'' @ name @ ''Options'',
                             o_resource = ''ApiGateWayResource'' @ name,
                             o_api = rt_api api\<rparr>
                            (l_apiMethodsOptions l)
                     else l_apiMethodsOptions l),
                  l_apiDependencies =
                    (if rt_api api = ''__proto__'' then l_apiDependencies l
                     else AList.update (rt_api api)
                            (dependencies @ [\<lparr>ref_name = methodName\<rparr>])
                            (l_apiDependencies l)),
                  l_prototype =
                    (if rt_api api = ''__proto__''
                     then Some (dependencies @ [\<lparr>ref_name = methodName\<rparr>])
                     else l_prototype l),
                  l_apiResources = resources\<rparr>)"

text \<open>A \<open>for ... of\<close> loop whose body may throw: the first exception ends it.\<close>

fun for_of :: "('s \<Rightarrow> 'a \<Rightarrow> error + 's) \<Rightarrow> 'a list \<Rightarrow> 's \<Rightarrow> error + 's" where
  "for_of body [] s = Inr s"
| "for_of body (x # xs) s =
     (case body s x of
        Inl e \<Rightarrow> Inl e
      | Inr s' \<Rightarrow> for_of body xs s')"

text \<open>The body of \<open>for (const lambda of config.lambdas)\<close>.\<close>

definition for_lambda :: "locals \<Rightarrow> lambda \<Rightarrow> error + locals" where
  "for_lambda l lambda =
     (case apiGateway lambda of
        None \<Rightarrow> Inr l
      | Some routes \<Rightarrow> for_of (for_api (lam_name lambda)) routes l)"

text \<open>
  What \<open>configureApiGateway\<close> returns: the document it was given, or the class
  \<open>Config\<close> itself, onto which \<open>Object.assign\<close> has put the four results.
\<close>

record gateway =
  g_apiMethods :: "method_node list"
  g_apiResources :: "resource_node list"
  g_apiMethodsOptions :: "options_node list"
  g_apiDependencies :: "dependency list"

datatype returned = Document document | ConfigClass gateway

text \<open>The local variables when the loop over \<open>config.lambdas\<close> starts.\<close>

definition initial_locals :: "api_decl list \<Rightarrow> locals" where
  "initial_locals as =
     foldl declare_api
       \<lparr>l_apiMethods = [], l_apiMethodsOptions = [], l_apiDependencies = [],
        l_prototype = None, l_apiResources = []\<rparr>
       as"

text \<open>
  \<open>for (const lambda of config.lambdas)\<close> throws a \<open>TypeError\<close> when the document
  has no \<open>lambdas\<close>: \<open>undefined\<close> is not iterable.
\<close>

definition configureApiGateway :: "document \<Rightarrow> error + returned" where
  "configureApiGateway config =
     (case apis config of
        None \<Rightarrow> Inr (Document config)
      | Some as \<Rightarrow>
          (case lambdas config of
             None \<Rightarrow> Inl (TypeError [])
           | Some ls \<Rightarrow>
               (case for_of for_lambda ls (initial_locals as) of
                  Inl e \<Rightarrow> Inl e
                | Inr l \<Rightarrow>
                    Inr (ConfigClass
                      \<lparr>g_apiMethods = l_apiMethods l,
                       g_apiResources = Object_values (l_apiResources l),
                       g_apiMethodsOptions = Object_values (l_apiMethodsOptions l),
                       g_apiDependencies =
                         map (\<lambda>k. \<lparr>dep_name = k,
                                   dep_methods = lookup (l_apiDependencies l) k\<rparr>)
                           (Object_keys (l_apiDependencies l))\<rparr>))))"

section \<open>configureLambda\<close>

text \<open>
  The body of \<open>for (const lambda of config.lambdas)\<close> in \<open>configureLambda\<close>:
  lodash \<open>has\<close> and \<open>hasOwnProperty\<close> ask whether the entry has the field.
\<close>

definition lambda_defaults :: "document \<Rightarrow> lambda \<Rightarrow> lambda" where
  "lambda_defaults config lambda =
     lambda
       \<lparr>memory := (case memory lambda of None \<Rightarrow> Some 1024 | Some m \<Rightarrow> Some m),
        timeout := (case timeout lambda of None \<Rightarrow> Some 300 | Some t \<Rightarrow> Some t),
        services :=
          (case services lambda of
             None \<Rightarrow> None
           | Some ss \<Rightarrow>
               Some (map (\<lambda>service. service\<lparr>lambdaName := Some (lam_name lambda)\<rparr>) ss)),
        envs := (case envs lambda of None \<Rightarrow> Some [] | Some es \<Rightarrow> Some es),
        fullName :=
          Some (template (stackName config) @ ''-'' @ template (stage config) @ ''-''
                @ lam_name lambda)\<rparr>"

definition configureLambda :: "document \<Rightarrow> document" where
  "configureLambda config =
     (case lambdas config of
        None \<Rightarrow> config
      | Some ls \<Rightarrow> config\<lparr>lambdas := Some (map (lambda_defaults config) ls)\<rparr>)"

section \<open>Object.assign on documents\<close>

text \<open>
  \<open>Object.assign(target, source)\<close> writes every own property of the source onto the
  target: a key of the source overwrites the target's, a key of the target alone stays.
\<close>

definition override :: "'a option \<Rightarrow> 'a option \<Rightarrow> 'a option" where
  "override target source = (case source of None \<Rightarrow> target | Some v \<Rightarrow> Some v)"

definition assign :: "document \<Rightarrow> document \<Rightarrow> document" where
  "assign target source =
     \<lparr>stackName = override (stackName target) (stackName source),
      stage = override (stage target) (stage source),
      apis = override (apis target) (apis source),
      lambdas = override (lambdas target) (lambdas source),
      apiMethods = override (apiMethods target) (apiMethods source),
      apiResources = override (apiResources target) (apiResources source),
      apiMethodsOptions = override (apiMethodsOptions target) (apiMethodsOptions source),
      apiDependencies = override (apiDependencies target) (apiDependencies source),
      others = others target ++ others source\<rparr>"

text \<open>
  The own enumerable properties of the class \<open>Config\<close> are the four that
  \<open>configureApiGateway\<close> has put on it.
\<close>

definition assign_class :: "document \<Rightarrow> gateway \<Rightarrow> document" where
  "assign_class target g =
     target
       \<lparr>apiMethods := Some (g_apiMethods g),
        apiResources := Some (g_apiResources g),
        apiMethodsOptions := Some (g_apiMethodsOptions g),
        apiDependencies := Some (g_apiDependencies g)\<rparr>"

definition empty_document :: document where
  "empty_document =
     \<lparr>stackName = None, stage = None, apis = None, lambdas = None, apiMethods = None,
      apiResources = None, apiMethodsOptions = None, apiDependencies = None,
      others = Map.empty\<rparr>"

section \<open>The class Config\<close>

text \<open>
  An instance holds the stack name and the stage name it was constructed with (absent
  when the caller passed \<open>null\<close> or nothing) and \<open>envs\<close>, the object that
  \<open>utils.loadLocalEnvs\<close> returned. The two file names matter only through what the
  file system, the template renderer and the YAML parser make of the files; these
  are not code of this file, so their results are arguments of the model.
\<close>

record Config =
  this_stack :: "string option"
  this_stage :: "string option"
  this_envs :: document

text \<open>\<open>if (this.stack)\<close>: a string is truthy unless it is empty.\<close>

definition truthy :: "string option \<Rightarrow> bool" where
  "truthy v = (case v of None \<Rightarrow> False | Some s \<Rightarrow> s \<noteq> [])"

section \<open>parseStage\<close>

text \<open>
  What reading, rendering and parsing \<open>stage.yml\<close> comes to: the file is missing
  (the one exception that \<open>parseStage\<close> catches), another exception is thrown, or
  the parser returns an object whose keys are the section names.
\<close>

datatype 'a loaded = NoSuchFile | Thrown | Loaded 'a

text \<open>
  \<open>Object.assign(stageConfig.default, stageConfig[this.stage])\<close> throws a
  \<open>TypeError\<close> when there is no \<open>default\<close> section and skips a source that is
  \<open>undefined\<close>. Without a stage name the result is \<open>stageConfig.default\<close>,
  which may be \<open>undefined\<close> (\<open>None\<close>).
\<close>

definition parseStage ::
  "Config \<Rightarrow> (string \<rightharpoonup> document) loaded \<Rightarrow> error + document option" where
  "parseStage this file =
     (case file of
        NoSuchFile \<Rightarrow> Inr (Some empty_document)
      | Thrown \<Rightarrow> Inl Exception
      | Loaded stageConfig \<Rightarrow>
          (if truthy (this_stage this)
           then (case stageConfig ''default'' of
                   None \<Rightarrow> Inl (TypeError [])
                 | Some defaults \<Rightarrow>
                     (case stageConfig (template (this_stage this)) of
                        None \<Rightarrow> Inr (Some defaults)
                      | Some selected \<Rightarrow> Inr (Some (assign defaults selected))))
           else Inr (stageConfig ''default'')))"

section \<open>parseConfig\<close>

text \<open>
  \<open>load\<close> stands for lines 258 to 270: reading \<open>config.yml\<close>, rendering it with
  the stage variables, parsing, dumping, rendering and parsing again. It is a function
  of the render context and returns the parsed document or throws.
\<close>

definition parseConfig ::
  "Config \<Rightarrow> (document \<Rightarrow> error + document) \<Rightarrow> document \<Rightarrow> error + document" where
  "parseConfig this load stageConfig =
     (let stageConfig = assign stageConfig (this_envs this)
      in case load stageConfig of
           Inl e \<Rightarrow> Inl e
         | Inr config \<Rightarrow>
             (let config = (if truthy (this_stack this)
                            then config\<lparr>stackName := this_stack this\<rparr> else config);
                  config = (if truthy (this_stage this)
                            then config\<lparr>stage := this_stage this\<rparr> else config);
                  config = assign config stageConfig;
                  config = configureLambda config
              in case configureApiGateway config of
                   Inl e \<Rightarrow> Inl e
                 | Inr (Document c) \<Rightarrow> Inr (assign config c)
                 | Inr (ConfigClass g) \<Rightarrow> Inr (assign_class config g)))"

section \<open>Notions used to state the properties\<close>

text \<open>
  The names of all segments of a path, and their concatenation: the value of
  \<open>segmentNames.map(x => x).join('')\<close> after the last segment, which the code uses
  as the key of the leaf.
\<close>

definition segment_names :: "string \<Rightarrow> string list" where
  "segment_names path = map display_name (split path CHR ''/'')"

definition leaf_key :: "string \<Rightarrow> string" where
  "leaf_key path = concat (segment_names path)"

text \<open>The route declarations of all entries of \<open>lambdas\<close>, in the order of the loops.\<close>

definition routes_of :: "lambda list \<Rightarrow> route list" where
  "routes_of ls =
     concat (map (\<lambda>lambda. case apiGateway lambda of None \<Rightarrow> [] | Some routes \<Rightarrow> routes) ls)"

text \<open>The same declarations, each with the name of the entry that declares it.\<close>

definition named_routes :: "lambda list \<Rightarrow> (string \<times> route) list" where
  "named_routes ls =
     concat (map (\<lambda>lambda. case apiGateway lambda of
                              None \<Rightarrow> []
                            | Some routes \<Rightarrow> map (Pair (lam_name lambda)) routes) ls)"

text \<open>
  The body of the inner loop on a pair of entry name and route declaration, so that the
  two nested loops read as one loop over \<open>named_routes\<close>.
\<close>

definition for_route :: "locals \<Rightarrow> string \<times> route \<Rightarrow> error + locals" where
  "for_route l p = for_api (fst p) l (snd p)"

text \<open>
  The method node that the loop body appends for a declaration, with the leaf key
  written as \<open>leaf_key\<close> and the two applications of \<open>capitalize\<close> as one.
\<close>

definition method_of :: "string \<times> route \<Rightarrow> method_node" where
  "method_of p =
     \<lparr>m_name = ''ApiGatewayMethod'' @ leaf_key (rt_path (snd p)) @ capitalize (rt_method (snd p)),
      m_method = toUpperCase (rt_method (snd p)), m_cors = rt_cors (snd p),
      m_resource = ''ApiGateWayResource'' @ leaf_key (rt_path (snd p)), m_lambda = fst p,
      m_api = rt_api (snd p)\<rparr>"

text \<open>The name of the options node stored under a key.\<close>

definition options_name :: "string \<Rightarrow> string" where
  "options_name key = ''ApiGatewayMethod'' @ key @ ''Options''"

section \<open>Example inputs\<close>

definition no_lambdas_example :: document where
  "no_lambdas_example = empty_document\<lparr>apis := Some [\<lparr>api_name = ''Api''\<rparr>]\<rparr>"

definition defaults_example :: document where
  "defaults_example =
     empty_document
       \<lparr>stackName := Some ''stack'',
        lambdas :=
          Some [\<lparr>lam_name = ''first'', memory = None, timeout = Some 5, envs = None,
                 services = Some [\<lparr>svc_fields = [(''type'', Str ''queue'')], lambdaName = None\<rparr>],
                 fullName = None, apiGateway = None\<rparr>,
                \<lparr>lam_name = ''second'', memory = Some 128, timeout = None,
                 envs = Some [Str ''DEBUG''], services = None, fullName = None,
                 apiGateway = None\<rparr>]\<rparr>"

definition missing_example :: document where
  "missing_example =
     empty_document
       \<lparr>apis := Some [\<lparr>api_name = ''Other''\<rparr>],
        lambdas :=
          Some [\<lparr>lam_name = ''handler'', memory = None, timeout = None, envs = None,
                 services = None, fullName = None,
                 apiGateway =
                   Some [\<lparr>rt_api = ''Missing'', rt_path = ''foo'', rt_method = ''get'',
                          rt_cors = False\<rparr>]\<rparr>]\<rparr>"

text \<open>The routes of the comment in the code, \<open>/foo\<close>, \<open>/foo/bar\<close> and a third.\<close>

definition foo_routes :: "route list" where
  "foo_routes =
     [\<lparr>rt_api = ''Api'', rt_path = ''/foo'', rt_method = ''GET'', rt_cors = False\<rparr>,
      \<lparr>rt_api = ''Api'', rt_path = ''/foo/bar'', rt_method = ''GET'', rt_cors = False\<rparr>,
      \<lparr>rt_api = ''Api'', rt_path = ''/foo/baz'', rt_method = ''POST'', rt_cors = False\<rparr>]"

definition foo_example :: document where
  "foo_example =
     empty_document
       \<lparr>apis := Some [\<lparr>api_name = ''Api''\<rparr>],
        lambdas :=
          Some [\<lparr>lam_name = ''handler'', memory = None, timeout = None, envs = None,
                 services = None, fullName = None, apiGateway = Some foo_routes\<rparr>]\<rparr>"

definition foo_resources :: "resource_node list" where
  "foo_resources =
     [\<lparr>res_name = ''ApiGateWayResource'', pathPart = '''',
       parents = [''Fn::GetAtt:'', ''- ApiRestApi'', ''- RootResourceId''], res_api = ''Api''\<rparr>,
      \<lparr>res_name = ''ApiGateWayResourceFoo'', pathPart = ''foo'',
       parents = [''Ref: ApiGateWayResource''], res_api = ''Api''\<rparr>,
      \<lparr>res_name = ''ApiGateWayResourceFooBar'', pathPart = ''bar'',
       parents = [''Ref: ApiGateWayResourceFoo''], res_api = ''Api''\<rparr>,
      \<lparr>res_name = ''ApiGateWayResourceFooBaz'', pathPart = ''baz'',
       parents = [''Ref: ApiGateWayResourceFoo''], res_api = ''Api''\<rparr>]"

definition foo_methods :: "method_node list" where
  "foo_methods =
     [\<lparr>m_name = ''ApiGatewayMethodFooGet'', m_method = ''GET'', m_cors = False,
       m_resource = ''ApiGateWayResourceFoo'', m_lambda = ''handler'', m_api = ''Api''\<rparr>,
      \<lparr>m_name = ''ApiGatewayMethodFooBarGet'', m_method = ''GET'', m_cors = False,
       m_resource = ''ApiGateWayResourceFooBar'', m_lambda = ''handler'', m_api = ''Api''\<rparr>,
      \<lparr>m_name = ''ApiGatewayMethodFooBazPost'', m_method = ''POST'', m_cors = False,
       m_resource = ''ApiGateWayResourceFooBaz'', m_lambda = ''handler'', m_api = ''Api''\<rparr>]"

text \<open>The same routes without the slash in front.\<close>

definition plain_foo_routes :: "route list" where
  "plain_foo_routes =
     [\<lparr>rt_api = ''Api'', rt_path = ''foo'', rt_method = ''GET'', rt_cors = False\<rparr>,
      \<lparr>rt_api = ''Api'', rt_path = ''foo/bar'', rt_method = ''GET'', rt_cors = False\<rparr>,
      \<lparr>rt_api = ''Api'', rt_path = ''foo/baz'', rt_method = ''POST'', rt_cors = False\<rparr>]"

definition plain_foo_example :: document where
  "plain_foo_example =
     empty_document
       \<lparr>apis := Some [\<lparr>api_name = ''Api''\<rparr>],
        lambdas :=
          Some [\<lparr>lam_name = ''handler'', memory = None, timeout = None, envs = None,
                 services = None, fullName = None, apiGateway = Some plain_foo_routes\<rparr>]\<rparr>"

definition plain_foo_resources :: "resource_node list" where
  "plain_foo_resources =
     [\<lparr>res_name = ''ApiGateWayResourceFoo'', pathPart = ''foo'',
       parents = [''Fn::GetAtt:'', ''- ApiRestApi'', ''- RootResourceId''], res_api = ''Api''\<rparr>,
      \<lparr>res_name = ''ApiGateWayResourceFooBar'', pathPart = ''bar'',
       parents = [''Ref: ApiGateWayResourceFoo''], res_api = ''Api''\<rparr>,
      \<lparr>res_name = ''ApiGateWayResourceFooBaz'', pathPart = ''baz'',
       parents = [''Ref: ApiGateWayResourceFoo''], res_api = ''Api''\<rparr>]"

text \<open>One route, with the method in lower case.\<close>

definition get_example :: document where
  "get_example =
     empty_document
       \<lparr>apis := Some [\<lparr>api_name = ''Api''\<rparr>],
        lambdas :=
          Some [\<lparr>lam_name = ''handler'', memory = None, timeout = None, envs = None,
                 services = None, fullName = None,
                 apiGateway =
                   Some [\<lparr>rt_api = ''Api'', rt_path = ''foo'', rt_method = ''get'',
                          rt_cors = False\<rparr>]\<rparr>]\<rparr>"

text \<open>Two routes with \<open>cors\<close> on one path, of two entries.\<close>

definition cors_get :: route where
  "cors_get = \<lparr>rt_api = ''Api'', rt_path = ''foo'', rt_method = ''GET'', rt_cors = True\<rparr>"

definition cors_post :: route where
  "cors_post = \<lparr>rt_api = ''Api'', rt_path = ''foo'', rt_method = ''POST'', rt_cors = True\<rparr>"

definition cors_lambdas :: "lambda list" where
  "cors_lambdas =
     [\<lparr>lam_name = ''reader'', memory = None, timeout = None, envs = None,
       services = None, fullName = None, apiGateway = Some [cors_get]\<rparr>,
      \<lparr>lam_name = ''writer'', memory = None, timeout = None, envs = None,
       services = None, fullName = None, apiGateway = Some [cors_post]\<rparr>]"

definition cors_example :: document where
  "cors_example =
     empty_document\<lparr>apis := Some [\<lparr>api_name = ''Api''\<rparr>], lambdas := Some cors_lambdas\<rparr>"

text \<open>Two routes with \<open>cors\<close> on the path \<open>__proto__\<close>.\<close>

definition proto_routes :: "route list" where
  "proto_routes =
     [\<lparr>rt_api = ''Api'', rt_path = ''__proto__'', rt_method = ''GET'', rt_cors = True\<rparr>,
      \<lparr>rt_api = ''Api'', rt_path = ''__proto__'', rt_method = ''POST'', rt_cors = True\<rparr>]"

definition proto_example :: document where
  "proto_example =
     empty_document
       \<lparr>apis := Some [\<lparr>api_name = ''Api''\<rparr>],
        lambdas :=
          Some [\<lparr>lam_name = ''handler'', memory = None, timeout = None, envs = None,
                 services = None, fullName = None, apiGateway = Some proto_routes\<rparr>]\<rparr>"

definition proto_methods :: "method_node list" where
  "proto_methods =
     [\<lparr>m_name = ''ApiGatewayMethod__proto__Get'', m_method = ''GET'', m_cors = True,
       m_resource = ''ApiGateWayResource__proto__'', m_lambda = ''handler'',
       m_api = ''Api''\<rparr>,
      \<lparr>m_name = ''ApiGatewayMethod__proto__Post'', m_method = ''POST'', m_cors = True,
       m_resource = ''ApiGateWayResource__proto__'', m_lambda = ''handler'',
       m_api = ''Api''\<rparr>]"

text \<open>
  A stage file whose sections both declare \<open>stackName\<close>, and \<open>default\<close> alone the
  stage and the list \<open>apis\<close>.
\<close>

definition named_stage_example :: "string \<rightharpoonup> document" where
  "named_stage_example =
     [''default'' \<mapsto>
        empty_document
          \<lparr>stackName := Some ''base'', stage := Some ''dev'',
           apis := Some [\<lparr>api_name = ''Api''\<rparr>], others := [''a'' \<mapsto> Num 1]\<rparr>,
      ''staging'' \<mapsto>
        empty_document\<lparr>stackName := Some ''staged'', others := [''a'' \<mapsto> Num 2]\<rparr>]"

text \<open>
  A stage file with the sections \<open>default\<close> and \<open>x\<close>, and instances with and
  without a stage name.
\<close>

definition stage_example :: "string \<rightharpoonup> document" where
  "stage_example =
     [''default'' \<mapsto> empty_document\<lparr>others := [''a'' \<mapsto> Num 1, ''b'' \<mapsto> Num 2]\<rparr>,
      ''x'' \<mapsto> empty_document\<lparr>others := [''b'' \<mapsto> Num 3, ''c'' \<mapsto> Num 4]\<rparr>]"

definition plain_instance :: Config where
  "plain_instance = \<lparr>this_stack = None, this_stage = None, this_envs = empty_document\<rparr>"

text \<open>
  An instance constructed with the stack name \<open>override\<close>, a template that declares
  another stack name, and stage variables that declare a third.
\<close>

definition override_instance :: Config where
  "override_instance =
     \<lparr>this_stack = Some ''override'', this_stage = None, this_envs = empty_document\<rparr>"

definition template_document :: document where
  "template_document = empty_document\<lparr>stackName := Some ''fromTemplate''\<rparr>"

definition stage_with_stackName :: document where
  "stage_with_stackName = empty_document\<lparr>stackName := Some ''fromStage''\<rparr>"



section \<open>Properties of the string functions\<close>

text \<open>The definitions that an evaluation of the examples unfolds.\<close>

lemmas string_defs = toUpperCase_char_def toLowerCase_char_def toUpperCase_def
  toLowerCase_def capitalize_def startsWith_def trim_def display_name_def

lemmas object_defs = set_property_def digit_def array_index_def index_of_def
  own_properties_def Object_keys_def Object_values_def lookup_def

lemmas gateway_defs = configureApiGateway_def initial_locals_def declare_api_def
  dependencies_of_def for_lambda_def for_api_def Let_def empty_document_def string_defs
  object_defs

lemmas parse_defs = parseConfig_def configureLambda_def assign_def assign_class_def
  override_def truthy_def Let_def configureApiGateway_def empty_document_def

lemma toUpperCase_char_toLowerCase_char [simp]:
  "toUpperCase_char (toLowerCase_char c) = toUpperCase_char c"
  by (simp add: toUpperCase_char_def toLowerCase_char_def)

lemma toLowerCase_char_toUpperCase_char [simp]:
  "toLowerCase_char (toUpperCase_char c) = toLowerCase_char c"
  by (simp add: toUpperCase_char_def toLowerCase_char_def)

lemma toUpperCase_char_idem [simp]:
  "toUpperCase_char (toUpperCase_char c) = toUpperCase_char c"
  by (simp add: toUpperCase_char_def)

lemma toLowerCase_char_idem [simp]:
  "toLowerCase_char (toLowerCase_char c) = toLowerCase_char c"
  by (simp add: toLowerCase_char_def)

lemma capitalize_idem: "capitalize (capitalize s) = capitalize s"
  by (cases s) (simp_all add: capitalize_def toLowerCase_def)

lemma toUpperCase_capitalize: "toUpperCase (capitalize s) = toUpperCase s"
  by (cases s) (simp_all add: capitalize_def toLowerCase_def toUpperCase_def)

section \<open>Properties of configureLambda\<close>

lemma lambda_defaults_twice:
  "stackName c' = stackName c \<Longrightarrow> stage c' = stage c
     \<Longrightarrow> lambda_defaults c' (lambda_defaults c l) = lambda_defaults c l"
  by (simp add: lambda_defaults_def comp_def split: option.splits)

text \<open>
  C7: \<open>configureLambda\<close> is idempotent. Applying it to its own result changes
  nothing: the fields \<open>memory\<close>, \<open>timeout\<close> and \<open>envs\<close> are set by then and stay,
  \<open>fullName\<close> and the \<open>lambdaName\<close> of every service are computed again with
  the same result. The entries keep their order and their number, and a value of
  \<open>memory\<close>, \<open>timeout\<close> or \<open>envs\<close> that an entry has is the value it keeps.
\<close>

theorem configureLambda_idempotent:
  "configureLambda (configureLambda config) = configureLambda config
   \<and> map_option (map lam_name) (lambdas (configureLambda config))
       = map_option (map lam_name) (lambdas config)
   \<and> (memory lambda = Some m \<longrightarrow> memory (lambda_defaults config lambda) = Some m)
   \<and> (timeout lambda = Some t \<longrightarrow> timeout (lambda_defaults config lambda) = Some t)
   \<and> (envs lambda = Some es \<longrightarrow> envs (lambda_defaults config lambda) = Some es)"
proof (cases "lambdas config")
  case None
  then show ?thesis by (simp add: configureLambda_def lambda_defaults_def)
next
  case (Some ls)
  have "map (lambda_defaults (config\<lparr>lambdas := Some (map (lambda_defaults config) ls)\<rparr>))
          (map (lambda_defaults config) ls) = map (lambda_defaults config) ls"
    by (simp add: lambda_defaults_twice)
  moreover have "map lam_name (map (lambda_defaults config) ls) = map lam_name ls"
    by (simp add: lambda_defaults_def)
  ultimately have "configureLambda (configureLambda config) = configureLambda config
    \<and> map_option (map lam_name) (lambdas (configureLambda config))
        = map_option (map lam_name) (lambdas config)"
    using Some by (simp add: configureLambda_def)
  then show ?thesis by (simp add: lambda_defaults_def)
qed

theorem configureLambda_idempotent_witness:
  "configureLambda (configureLambda defaults_example) = configureLambda defaults_example
   \<and> map_option (map lam_name) (lambdas (configureLambda defaults_example))
       = Some [''first'', ''second'']
   \<and> map_option (map memory) (lambdas (configureLambda defaults_example))
       = Some [Some 1024, Some 128]
   \<and> map_option (map timeout) (lambdas (configureLambda defaults_example))
       = Some [Some 5, Some 300]"
proof -
  have "map_option (map memory) (lambdas (configureLambda defaults_example))
          = Some [Some 1024, Some 128]
        \<and> map_option (map timeout) (lambdas (configureLambda defaults_example))
          = Some [Some 5, Some 300]"
    by (simp add: defaults_example_def empty_document_def configureLambda_def
        lambda_defaults_def)
  with configureLambda_idempotent [of defaults_example] show ?thesis
    by (simp add: defaults_example_def empty_document_def)
qed

section \<open>Properties of configureApiGateway\<close>

lemma routes_of_named_routes: "routes_of ls = map snd (named_routes ls)"
  by (induction ls) (simp_all add: routes_of_def named_routes_def comp_def split: option.splits)

lemma forEach_segment_names:
  "fst (forEach_segment api index segments (names, resources))
     = names @ map display_name segments"
  by (induction segments arbitrary: index names resources) (simp_all add: Let_def)

lemma for_api_Inl:
  "dependencies_of l (rt_api r) = None
     \<Longrightarrow> for_api n l r = Inl (TypeError [rt_api r @ '' is not defined''])"
  by (simp add: for_api_def Let_def split_beta)

lemma for_api_Inr:
  "dependencies_of l (rt_api r) = Some ms
     \<Longrightarrow> for_api n l r =
         Inr \<lparr>l_apiMethods = l_apiMethods l @ [method_of (n, r)],
              l_apiMethodsOptions =
                (if rt_cors r
                 then set_property (leaf_key (rt_path r))
                        \<lparr>o_name = options_name (leaf_key (rt_path r)),
                         o_resource = ''ApiGateWayResource'' @ leaf_key (rt_path r),
                         o_api = rt_api r\<rparr>
                        (l_apiMethodsOptions l)
                 else l_apiMethodsOptions l),
              l_apiDependencies =
                (if rt_api r = ''__proto__'' then l_apiDependencies l
                 else AList.update (rt_api r)
                        (ms @ [\<lparr>ref_name = m_name (method_of (n, r))\<rparr>])
                        (l_apiDependencies l)),
              l_prototype =
                (if rt_api r = ''__proto__''
                 then Some (ms @ [\<lparr>ref_name = m_name (method_of (n, r))\<rparr>])
                 else l_prototype l),
              l_apiResources =
                snd (forEach_segment (rt_api r) 0 (split (rt_path r) CHR ''/'')
                       ([], l_apiResources l))\<rparr>"
  by (simp add: for_api_def Let_def split_beta forEach_segment_names leaf_key_def
      segment_names_def method_of_def options_name_def capitalize_idem toUpperCase_capitalize)

lemma for_of_append:
  "for_of body (xs @ ys) s =
     (case for_of body xs s of Inl e \<Rightarrow> Inl e | Inr s' \<Rightarrow> for_of body ys s')"
  by (induction xs arbitrary: s) (simp_all split: sum.splits)

lemma for_of_map:
  "for_of body (map f xs) s = for_of (\<lambda>s x. body s (f x)) xs s"
  by (induction xs arbitrary: s) (simp_all split: sum.splits)

lemma for_lambda_routes:
  "for_of for_lambda ls l = for_of for_route (named_routes ls) l"
proof (induction ls arbitrary: l)
  case Nil
  then show ?case by (simp add: named_routes_def)
next
  case (Cons lambda ls)
  have "named_routes (lambda # ls) =
          (case apiGateway lambda of
             None \<Rightarrow> []
           | Some routes \<Rightarrow> map (Pair (lam_name lambda)) routes)
          @ named_routes ls"
    by (simp add: named_routes_def)
  then show ?case using Cons.IH
    by (simp add: for_of_append for_lambda_def for_of_map for_route_def
        split: option.splits sum.splits)
qed

text \<open>
  One step of the loop: it throws, having logged the identifier for which
  \<open>apiDependencies\<close> holds no array, or it appends one method node, leaves the
  identifiers with an array as they are and, for a declaration with \<open>cors\<close>,
  writes the options node of the leaf.
\<close>

lemma for_route_cases:
  "(dependencies_of l (rt_api (snd p)) = None
      \<and> for_route l p = Inl (TypeError [rt_api (snd p) @ '' is not defined'']))
   \<or> (\<exists>l'. for_route l p = Inr l'
         \<and> l_apiMethods l' = l_apiMethods l @ [method_of p]
         \<and> (\<forall>k. (dependencies_of l' k = None) = (dependencies_of l k = None))
         \<and> dependencies_of l (rt_api (snd p)) \<noteq> None
         \<and> l_apiMethodsOptions l' =
             (if rt_cors (snd p)
              then set_property (leaf_key (rt_path (snd p)))
                     \<lparr>o_name = options_name (leaf_key (rt_path (snd p))),
                      o_resource = ''ApiGateWayResource'' @ leaf_key (rt_path (snd p)),
                      o_api = rt_api (snd p)\<rparr>
                     (l_apiMethodsOptions l)
              else l_apiMethodsOptions l))"
proof (cases "dependencies_of l (rt_api (snd p))")
  case None
  then show ?thesis by (simp add: for_route_def for_api_Inl)
next
  case (Some ms)
  then show ?thesis using for_api_Inr [OF Some, of "fst p"]
    by (auto simp add: for_route_def dependencies_of_def AList.update_conv'
        split: if_splits)
qed

text \<open>
  When the loop over the routes starts, the identifiers with an array are the names
  of the entries of \<open>apis\<close>, and the other local variables are empty.
\<close>

lemma declared_after_foldl:
  "(dependencies_of (foldl declare_api l as) k = None)
     = (dependencies_of l k = None \<and> k \<notin> api_name ` set as)"
  by (induction as arbitrary: l)
    (auto simp add: declare_api_def dependencies_of_def AList.update_conv')

lemma declared_initially:
  "(dependencies_of (initial_locals as) k = None) = (k \<notin> api_name ` set as)"
  by (simp add: initial_locals_def declared_after_foldl) (simp add: dependencies_of_def)

lemma foldl_declare_api_others:
  "l_apiMethods (foldl declare_api l as) = l_apiMethods l
   \<and> l_apiMethodsOptions (foldl declare_api l as) = l_apiMethodsOptions l
   \<and> l_apiResources (foldl declare_api l as) = l_apiResources l"
  by (induction as arbitrary: l) (simp_all add: declare_api_def)

lemma initial_locals_empty [simp]:
  "l_apiMethods (initial_locals as) = []"
  "l_apiMethodsOptions (initial_locals as) = []"
  "l_apiResources (initial_locals as) = []"
  by (simp_all add: initial_locals_def foldl_declare_api_others)

lemma configureApiGateway_unfold:
  "apis config = Some as \<Longrightarrow> lambdas config = Some ls \<Longrightarrow>
   configureApiGateway config =
     (case for_of for_route (named_routes ls) (initial_locals as) of
        Inl e \<Rightarrow> Inl e
      | Inr l \<Rightarrow>
          Inr (ConfigClass
            \<lparr>g_apiMethods = l_apiMethods l,
             g_apiResources = Object_values (l_apiResources l),
             g_apiMethodsOptions = Object_values (l_apiMethodsOptions l),
             g_apiDependencies =
               map (\<lambda>k. \<lparr>dep_name = k, dep_methods = lookup (l_apiDependencies l) k\<rparr>)
                 (Object_keys (l_apiDependencies l))\<rparr>))"
  by (simp add: configureApiGateway_def for_lambda_routes)

lemma configureApiGateway_ConfigClass:
  assumes "configureApiGateway config = Inr (ConfigClass g)" and "lambdas config = Some ls"
  shows "\<exists>as l. apis config = Some as
    \<and> for_of for_route (named_routes ls) (initial_locals as) = Inr l
    \<and> g_apiMethods g = l_apiMethods l
    \<and> g_apiMethodsOptions g = Object_values (l_apiMethodsOptions l)
    \<and> g_apiResources g = Object_values (l_apiResources l)"
proof (cases "apis config")
  case None
  with assms(1) show ?thesis by (simp add: configureApiGateway_def)
next
  case (Some as)
  with assms show ?thesis
    by (auto simp add: configureApiGateway_unfold split: sum.splits)
qed

lemma configureApiGateway_Document:
  "configureApiGateway config = Inr (Document c) \<Longrightarrow> c = config"
  by (auto simp add: configureApiGateway_def Let_def split: option.splits sum.splits)

subsection \<open>Absent lambdas\<close>

text \<open>
  C10: when the document has the list \<open>apis\<close> and no \<open>lambdas\<close>,
  \<open>configureApiGateway\<close> does not return a document: the loop over
  \<open>config.lambdas\<close> throws a \<open>TypeError\<close>, and nothing was logged before.
\<close>

theorem configureApiGateway_lambdas_absent:
  "apis config = Some as \<Longrightarrow> lambdas config = None
     \<Longrightarrow> configureApiGateway config = Inl (TypeError [])"
  by (simp add: configureApiGateway_def)

theorem configureApiGateway_lambdas_absent_witness:
  "apis no_lambdas_example = Some [\<lparr>api_name = ''Api''\<rparr>]
   \<and> lambdas no_lambdas_example = None
   \<and> configureApiGateway no_lambdas_example = Inl (TypeError [])"
  using configureApiGateway_lambdas_absent [of no_lambdas_example "[\<lparr>api_name = ''Api''\<rparr>]"]
  by (simp add: no_lambdas_example_def empty_document_def)

subsection \<open>Undeclared API identifiers\<close>

text \<open>
  The loop stops at the first declaration for whose identifier \<open>apiDependencies\<close>
  holds no array, with that identifier in the line it logs.
\<close>

lemma for_of_for_route_undeclared:
  "List.find (\<lambda>p. dependencies_of l (rt_api (snd p)) = None) ps = Some p
     \<Longrightarrow> for_of for_route ps l = Inl (TypeError [rt_api (snd p) @ '' is not defined''])"
proof (induction ps arbitrary: l)
  case Nil
  then show ?case by simp
next
  case (Cons q ps)
  show ?case
  proof (cases "dependencies_of l (rt_api (snd q)) = None")
    case False
    with for_route_cases [of l q] obtain l' where
      l': "for_route l q = Inr l'"
      "\<forall>k. (dependencies_of l' k = None) = (dependencies_of l k = None)"
      by auto
    from Cons.prems False
    have "List.find (\<lambda>p. dependencies_of l' (rt_api (snd p)) = None) ps = Some p"
      by (simp add: l'(2))
    then show ?thesis using Cons.IH [of l'] l'(1) by simp
  next
    case True
    from Cons.prems True have "p = q" by simp
    moreover from True for_route_cases [of l q]
    have "for_route l q = Inl (TypeError [rt_api (snd q) @ '' is not defined''])"
      by blast
    ultimately show ?thesis by simp
  qed
qed

text \<open>
  C5: when the document has the list \<open>apis\<close> and one of its routes names an
  identifier that is not the name of an entry of that list, \<open>configureApiGateway\<close>
  throws: it returns no document and no dependency list, and the line it has logged
  names an identifier that a route uses and the list does not declare (that of the
  first such route).
\<close>

theorem undeclared_api_throws:
  assumes "apis config = Some as" and "lambdas config = Some ls"
    and "r \<in> set (routes_of ls)" and "rt_api r \<notin> api_name ` set as"
  shows "\<exists>r' \<in> set (routes_of ls). rt_api r' \<notin> api_name ` set as
           \<and> configureApiGateway config = Inl (TypeError [rt_api r' @ '' is not defined''])"
proof -
  let ?P = "\<lambda>p. dependencies_of (initial_locals as) (rt_api (snd p)) = None"
  from assms(3) obtain p where p: "p \<in> set (named_routes ls)" "snd p = r"
    by (auto simp add: routes_of_named_routes)
  with assms(4) have "\<exists>p \<in> set (named_routes ls). ?P p"
    by (auto simp add: declared_initially)
  then have "List.find ?P (named_routes ls) \<noteq> None"
    unfolding find_None_iff by blast
  then obtain q where q: "List.find ?P (named_routes ls) = Some q"
    by blast
  then have "q \<in> set (named_routes ls)" and "?P q"
    by (auto simp add: find_Some_iff)
  then have "snd q \<in> set (routes_of ls)" and "rt_api (snd q) \<notin> api_name ` set as"
    by (auto simp add: routes_of_named_routes declared_initially)
  moreover
  have "configureApiGateway config = Inl (TypeError [rt_api (snd q) @ '' is not defined''])"
    using for_of_for_route_undeclared [OF q] assms(1,2)
    by (simp add: configureApiGateway_unfold)
  ultimately show ?thesis by blast
qed

theorem undeclared_api_throws_witness:
  "configureApiGateway missing_example = Inl (TypeError [''Missing is not defined''])"
  using undeclared_api_throws [of missing_example "[\<lparr>api_name = ''Other''\<rparr>]"
      "[\<lparr>lam_name = ''handler'', memory = None, timeout = None, envs = None,
         services = None, fullName = None,
         apiGateway =
           Some [\<lparr>rt_api = ''Missing'', rt_path = ''foo'', rt_method = ''get'',
                  rt_cors = False\<rparr>]\<rparr>]"
      "\<lparr>rt_api = ''Missing'', rt_path = ''foo'', rt_method = ''get'', rt_cors = False\<rparr>"]
  by (simp add: missing_example_def empty_document_def routes_of_def)

subsection \<open>Method nodes\<close>

lemma for_of_for_route_methods:
  "for_of for_route ps l = Inr l' \<Longrightarrow> l_apiMethods l' = l_apiMethods l @ map method_of ps"
proof (induction ps arbitrary: l)
  case Nil
  then show ?case by simp
next
  case (Cons p ps)
  from Cons.prems for_route_cases [of l p] obtain l1 where
    l1: "for_route l p = Inr l1" "l_apiMethods l1 = l_apiMethods l @ [method_of p]"
    by auto
  with Cons.prems have "for_of for_route ps l1 = Inr l'" by simp
  from Cons.IH [OF this] l1(2) show ?case by simp
qed

text \<open>
  C6, as amended: when \<open>configureApiGateway\<close> returns the four results, there is one
  method node for every route declaration, in the order of the declarations. Its
  \<open>method\<close> is the HTTP method in upper case. Its \<open>name\<close> is
  \<open>ApiGatewayMethod\<close>, then the leaf key, then the HTTP method capitalized: the
  first letter in upper case and all others in lower case (\<open>Get\<close>, not \<open>GET\<close>).
\<close>

theorem method_nodes:
  assumes "configureApiGateway config = Inr (ConfigClass g)" and "lambdas config = Some ls"
  shows "map m_name (g_apiMethods g)
           = map (\<lambda>r. ''ApiGatewayMethod'' @ leaf_key (rt_path r) @ capitalize (rt_method r))
               (routes_of ls)
         \<and> map m_method (g_apiMethods g) = map (\<lambda>r. toUpperCase (rt_method r)) (routes_of ls)"
proof -
  from configureApiGateway_ConfigClass [OF assms] obtain as l where
    "for_of for_route (named_routes ls) (initial_locals as) = Inr l"
    and "g_apiMethods g = l_apiMethods l"
    by blast
  then have "g_apiMethods g = map method_of (named_routes ls)"
    using for_of_for_route_methods [of "named_routes ls" "initial_locals as" l] by simp
  then show ?thesis
    by (simp add: routes_of_named_routes method_of_def comp_def)
qed

theorem method_nodes_witness:
  "\<exists>g. configureApiGateway get_example = Inr (ConfigClass g)
        \<and> map m_name (g_apiMethods g) = [''ApiGatewayMethodFooGet'']
        \<and> map m_method (g_apiMethods g) = [''GET'']"
proof -
  obtain g where g: "configureApiGateway get_example = Inr (ConfigClass g)"
    by (simp add: get_example_def gateway_defs)
  have "lambdas get_example =
          Some [\<lparr>lam_name = ''handler'', memory = None, timeout = None, envs = None,
                 services = None, fullName = None,
                 apiGateway =
                   Some [\<lparr>rt_api = ''Api'', rt_path = ''foo'', rt_method = ''get'',
                          rt_cors = False\<rparr>]\<rparr>]"
    by (simp add: get_example_def empty_document_def)
  from method_nodes [OF g this]
  have "map m_name (g_apiMethods g) = [''ApiGatewayMethodFooGet'']
        \<and> map m_method (g_apiMethods g) = [''GET'']"
    by (simp add: routes_of_def leaf_key_def segment_names_def string_defs)
  with g show ?thesis by auto
qed

text \<open>
  The claim as stated fails on the route \<open>foo\<close> with the method \<open>get\<close>: the name
  of its method node ends in \<open>Get\<close>, and the claim's name ends in \<open>GET\<close>.
\<close>

theorem method_name_counterexample:
  "\<exists>g. configureApiGateway get_example = Inr (ConfigClass g)
        \<and> map m_name (g_apiMethods g) = [''ApiGatewayMethodFooGet'']
        \<and> ''ApiGatewayMethod'' @ leaf_key ''foo'' @ toUpperCase ''get''
            = ''ApiGatewayMethodFooGET''
        \<and> map m_name (g_apiMethods g)
            \<noteq> [''ApiGatewayMethod'' @ leaf_key ''foo'' @ toUpperCase ''get'']"
  by (simp add: get_example_def gateway_defs leaf_key_def segment_names_def)

subsection \<open>Options nodes\<close>

lemma own_properties_filter_length:
  "length (filter Q (own_properties obj)) = length (filter Q obj)"
proof -
  have "length (filter Q (filter (\<lambda>p. array_index (fst p) \<noteq> None) obj))
          + length (filter Q (filter (\<lambda>p. array_index (fst p) = None) obj))
          = length (filter Q obj)"
    by (induction obj) simp_all
  then show ?thesis
    by (simp only: own_properties_def filter_append length_append filter_sort length_sort)
qed

lemma set_update_subset: "set (AList.update k v al) \<subseteq> insert (k, v) (set al)"
  by (induction al) auto

lemma set_set_property_subset: "set (set_property k v al) \<subseteq> insert (k, v) (set al)"
  using set_update_subset [of k v al] by (auto simp add: set_property_def)

lemma distinct_set_property:
  "distinct (map fst al) \<Longrightarrow> distinct (map fst (set_property k v al))"
  by (simp add: set_property_def AList.distinct_update)

lemma keys_set_property:
  "fst ` set (set_property k v al) = ({k} - {''__proto__''}) \<union> fst ` set al"
  by (simp add: set_property_def AList.dom_update)

lemma distinct_filter_eq_one:
  "distinct xs \<Longrightarrow> k \<in> set xs \<Longrightarrow> length (filter (\<lambda>x. x = k) xs) = 1"
  by (induction xs) (auto simp add: filter_empty_conv)

lemma options_name_inject [simp]: "options_name a = options_name b \<longleftrightarrow> a = b"
  by (simp add: options_name_def)

text \<open>
  The object \<open>apiMethodsOptions\<close> during the loop: every key once, under every key
  the node named after it, and the keys are the leaf keys of the declarations with
  \<open>cors\<close> seen so far, but for the leaf key \<open>__proto__\<close>, which is never a key.
\<close>

lemma for_of_for_route_options:
  assumes "for_of for_route ps l = Inr l'"
    and "distinct (map fst (l_apiMethodsOptions l))"
    and "\<forall>p \<in> set (l_apiMethodsOptions l). o_name (snd p) = options_name (fst p)"
  shows "distinct (map fst (l_apiMethodsOptions l'))
         \<and> (\<forall>p \<in> set (l_apiMethodsOptions l'). o_name (snd p) = options_name (fst p))
         \<and> fst ` set (l_apiMethodsOptions l')
             = fst ` set (l_apiMethodsOptions l)
               \<union> ((\<lambda>p. leaf_key (rt_path (snd p))) ` {p \<in> set ps. rt_cors (snd p)}
                   - {''__proto__''})"
  using assms
proof (induction ps arbitrary: l)
  case Nil
  then show ?case by simp
next
  case (Cons p ps)
  from Cons.prems(1) for_route_cases [of l p] obtain l1 where
    l1: "for_route l p = Inr l1"
    and opts: "l_apiMethodsOptions l1 =
             (if rt_cors (snd p)
              then set_property (leaf_key (rt_path (snd p)))
                     \<lparr>o_name = options_name (leaf_key (rt_path (snd p))),
                      o_resource = ''ApiGateWayResource'' @ leaf_key (rt_path (snd p)),
                      o_api = rt_api (snd p)\<rparr>
                     (l_apiMethodsOptions l)
              else l_apiMethodsOptions l)"
    by auto
  from l1 Cons.prems(1) have rest: "for_of for_route ps l1 = Inr l'" by simp
  have d1: "distinct (map fst (l_apiMethodsOptions l1))"
    using Cons.prems(2) opts by (simp add: distinct_set_property)
  have n1: "\<forall>q \<in> set (l_apiMethodsOptions l1). o_name (snd q) = options_name (fst q)"
    using Cons.prems(3) opts set_set_property_subset
    by (fastforce split: if_splits)
  have k1: "fst ` set (l_apiMethodsOptions l1)
              = fst ` set (l_apiMethodsOptions l)
                \<union> (if rt_cors (snd p) then {leaf_key (rt_path (snd p))} - {''__proto__''}
                    else {})"
    using opts by (auto simp add: keys_set_property)
  from Cons.IH [OF rest d1 n1] k1 show ?case by auto
qed

text \<open>
  What the code does for every leaf key but one: when \<open>configureApiGateway\<close>
  returns the four results and two routes with \<open>cors\<close> have the same path, whose
  leaf key is not \<open>__proto__\<close>, then exactly one options node carries the name
  of their leaf.
\<close>

lemma options_node_once:
  assumes "configureApiGateway config = Inr (ConfigClass g)" and "lambdas config = Some ls"
    and "r1 \<in> set (routes_of ls)" and "rt_cors r1"
    and "r2 \<in> set (routes_of ls)" and "rt_cors r2"
    and "rt_path r1 = rt_path r2"
    and "leaf_key (rt_path r1) \<noteq> ''__proto__''"
  shows "length (filter (\<lambda>opt. o_name opt = ''ApiGatewayMethod'' @ leaf_key (rt_path r1) @ ''Options''
                               \<or> o_name opt = ''ApiGatewayMethod'' @ leaf_key (rt_path r2) @ ''Options'')
                   (g_apiMethodsOptions g)) = 1"
proof -
  let ?k = "leaf_key (rt_path r1)"
  from configureApiGateway_ConfigClass [OF assms(1,2)]
  obtain as l where
    run: "for_of for_route (named_routes ls) (initial_locals as) = Inr l"
    and g: "g_apiMethodsOptions g = Object_values (l_apiMethodsOptions l)"
    by blast
  from for_of_for_route_options [OF run] have
    d: "distinct (map fst (l_apiMethodsOptions l))"
    and n: "\<forall>p \<in> set (l_apiMethodsOptions l). o_name (snd p) = options_name (fst p)"
    and k: "fst ` set (l_apiMethodsOptions l)
              = (\<lambda>p. leaf_key (rt_path (snd p))) ` {p \<in> set (named_routes ls). rt_cors (snd p)}
                - {''__proto__''}"
    by simp_all
  from assms(3,4,8) have key: "?k \<in> set (map fst (l_apiMethodsOptions l))"
    unfolding set_map k by (auto simp add: routes_of_named_routes)
  have "length (filter (\<lambda>opt. o_name opt = options_name ?k) (g_apiMethodsOptions g))
          = length (filter (\<lambda>p. o_name (snd p) = options_name ?k) (l_apiMethodsOptions l))"
    by (simp add: g Object_values_def filter_map comp_def own_properties_filter_length)
  also have "\<dots> = length (filter (\<lambda>p. fst p = ?k) (l_apiMethodsOptions l))"
    using n by (intro arg_cong [where f = length] filter_cong) auto
  also have "\<dots> = length (filter (\<lambda>x. x = ?k) (map fst (l_apiMethodsOptions l)))"
    by (simp add: filter_map comp_def)
  also have "\<dots> = 1"
    using d key by (rule distinct_filter_eq_one)
  finally show ?thesis using assms(7) by (simp add: options_name_def)
qed

lemma options_node_once_example:
  "\<exists>g. configureApiGateway cors_example = Inr (ConfigClass g)
        \<and> length (filter (\<lambda>opt. o_name opt = ''ApiGatewayMethodFooOptions'')
                    (g_apiMethodsOptions g)) = 1"
proof -
  obtain g where g: "configureApiGateway cors_example = Inr (ConfigClass g)"
    by (simp add: cors_example_def cors_lambdas_def cors_get_def cors_post_def gateway_defs)
  have ls: "lambdas cors_example = Some cors_lambdas"
    by (simp add: cors_example_def empty_document_def)
  have routes: "cors_get \<in> set (routes_of cors_lambdas)" "cors_post \<in> set (routes_of cors_lambdas)"
    by (simp_all add: routes_of_def cors_lambdas_def)
  have "rt_cors cors_get" and "rt_cors cors_post" and "rt_path cors_get = rt_path cors_post"
    and "leaf_key (rt_path cors_get) \<noteq> ''__proto__''"
    by (simp_all add: cors_get_def cors_post_def leaf_key_def segment_names_def string_defs)
  from options_node_once [OF g ls routes(1) this(1) routes(2) this(2,3,4)]
  have "length (filter (\<lambda>opt. o_name opt = ''ApiGatewayMethodFooOptions'')
                  (g_apiMethodsOptions g)) = 1"
    by (simp add: cors_get_def cors_post_def leaf_key_def segment_names_def string_defs)
  with g show ?thesis by blast
qed

text \<open>
  C8: the claim holds of the intent of the code and fails of the code on one leaf key.
  Two routes with \<open>cors\<close> on the path \<open>__proto__\<close>, one with GET and one with
  POST, get two method nodes and no options node at all: the assignment
  \<open>apiMethodsOptions['__proto__'] = {...}\<close> sets the prototype of the object and
  stores nothing that \<open>Object.values\<close> lists. (For the same reason the path has no
  resource node.)
\<close>

theorem proto_routes_options:
  "configureApiGateway proto_example =
     Inr (ConfigClass
       \<lparr>g_apiMethods = proto_methods,
        g_apiResources = [],
        g_apiMethodsOptions = [],
        g_apiDependencies =
          [\<lparr>dep_name = ''Api'',
            dep_methods =
              [\<lparr>ref_name = ''ApiGatewayMethod__proto__Get''\<rparr>,
               \<lparr>ref_name = ''ApiGatewayMethod__proto__Post''\<rparr>]\<rparr>]\<rparr>)
   \<and> map m_cors proto_methods = [True, True]
   \<and> map m_resource proto_methods
       = [''ApiGateWayResource__proto__'', ''ApiGateWayResource__proto__'']"
  by (simp add: proto_example_def proto_routes_def proto_methods_def gateway_defs)

subsection \<open>Resource nodes\<close>

text \<open>
  C2: the claim holds of the comment in the code and fails of the code. On the routes
  \<open>/foo\<close> (GET), \<open>/foo/bar\<close> (GET) and \<open>/foo/baz\<close> (POST) of one API,
  \<open>configureApiGateway\<close> returns three method nodes and four resource nodes: before
  \<open>Foo\<close>, \<open>FooBar\<close> and \<open>FooBaz\<close> stands a node for the empty segment in front
  of the first slash, with an empty \<open>pathPart\<close>, and this node, not the root of
  the API, is the parent of \<open>Foo\<close>.
\<close>

theorem foo_routes_resources:
  "configureApiGateway foo_example =
     Inr (ConfigClass
       \<lparr>g_apiMethods = foo_methods,
        g_apiResources = foo_resources,
        g_apiMethodsOptions = [],
        g_apiDependencies =
          [\<lparr>dep_name = ''Api'',
            dep_methods =
              [\<lparr>ref_name = ''ApiGatewayMethodFooGet''\<rparr>,
               \<lparr>ref_name = ''ApiGatewayMethodFooBarGet''\<rparr>,
               \<lparr>ref_name = ''ApiGatewayMethodFooBazPost''\<rparr>]\<rparr>]\<rparr>)
   \<and> length foo_resources = 4"
  by (simp add: foo_example_def foo_routes_def foo_resources_def foo_methods_def gateway_defs)

text \<open>
  Written without the slash in front, the same routes give the three resource nodes
  of the comment, \<open>Foo\<close> under the root of the API.
\<close>

lemma plain_foo_routes_resources:
  "configureApiGateway plain_foo_example =
     Inr (ConfigClass
       \<lparr>g_apiMethods = foo_methods,
        g_apiResources = plain_foo_resources,
        g_apiMethodsOptions = [],
        g_apiDependencies =
          [\<lparr>dep_name = ''Api'',
            dep_methods =
              [\<lparr>ref_name = ''ApiGatewayMethodFooGet''\<rparr>,
               \<lparr>ref_name = ''ApiGatewayMethodFooBarGet''\<rparr>,
               \<lparr>ref_name = ''ApiGatewayMethodFooBazPost''\<rparr>]\<rparr>]\<rparr>)
   \<and> length plain_foo_resources = 3"
  by (simp add: plain_foo_example_def plain_foo_routes_def plain_foo_resources_def
      foo_methods_def gateway_defs)

subsection \<open>Display names\<close>

lemma trim_braces:
  assumes "CHR ''{'' \<notin> set x" and "CHR ''}'' \<notin> set x"
  shows "trim (CHR ''{'' # x @ ''}'') ''{}'' = x"
proof -
  have stop: "dropWhile (\<lambda>c. c \<in> set ''{}'') y = y" if "set y \<subseteq> set x" for y
    using that assms by (cases y) auto
  have "dropWhile (\<lambda>c. c \<in> set ''{}'') (CHR ''{'' # x @ ''}'')
          = (if x = [] then [] else x @ ''}'')"
    using assms by (cases x) auto
  moreover have "dropWhile (\<lambda>c. c \<in> set ''{}'') (rev (x @ ''}'')) = rev x"
    using stop [of "rev x"] by simp
  ultimately show ?thesis by (simp add: trim_def)
qed

lemma replace_underscore:
  "count_list x CHR ''_'' \<le> 1 \<Longrightarrow> replace x ''_'' '''' = filter (\<lambda>c. c \<noteq> CHR ''_'') x"
proof (induction x)
  case Nil
  then show ?case by simp
next
  case (Cons c cs)
  show ?case
  proof (cases "c = CHR ''_''")
    case True
    with Cons.prems have "count_list cs CHR ''_'' = 0" by simp
    then have "CHR ''_'' \<notin> set cs" by (simp add: count_list_0_iff)
    then have "filter (\<lambda>c. c \<noteq> CHR ''_'') cs = cs" by (induction cs) auto
    with True show ?thesis by simp
  next
    case False
    with Cons show ?thesis by simp
  qed
qed

text \<open>
  C4, as amended: for the route path \<open>/{short_name}/items\<close> the segment
  \<open>{short_name}\<close> has the display name \<open>ShortnameVar\<close>, the segment \<open>items\<close>
  has \<open>Items\<close>, and the leaf key, the concatenation of the names that the loop
  collects, is \<open>ShortnameVarItems\<close>. A segment \<open>{x}\<close>, where \<open>x\<close> has no brace
  and at most one underscore, gets the name \<open>x\<close> without the underscore, followed
  by \<open>Var\<close>; a segment that does not start with a brace keeps its text. In both
  cases the first letter is put in upper case and no other letter changes.
\<close>

theorem display_names:
  "display_name ''{short_name}'' = ''ShortnameVar''
   \<and> display_name ''items'' = ''Items''
   \<and> concat (fst (forEach_segment api 0 (split ''/{short_name}/items'' CHR ''/'')
                    ([], resources)))
       = ''ShortnameVarItems''
   \<and> (count_list x CHR ''_'' \<le> 1 \<and> CHR ''{'' \<notin> set x \<and> CHR ''}'' \<notin> set x
        \<longrightarrow> display_name (''{'' @ x @ ''}'')
            = upperFirst (filter (\<lambda>c. c \<noteq> CHR ''_'') x @ ''Var''))
   \<and> (\<not> startsWith s ''{'' \<longrightarrow> display_name s = upperFirst s)"
proof -
  have "segment_names ''/{short_name}/items'' = ['''', ''ShortnameVar'', ''Items'']"
    by (simp add: segment_names_def display_name_def startsWith_def trim_def
        toUpperCase_char_def)
  then have "concat (fst (forEach_segment api 0 (split ''/{short_name}/items'' CHR ''/'')
                         ([], resources)))
               = ''ShortnameVarItems''"
    unfolding forEach_segment_names by (simp add: segment_names_def)
  moreover have "display_name ''{short_name}'' = ''ShortnameVar''"
    and "display_name ''items'' = ''Items''"
    by (simp_all add: string_defs)
  moreover have "display_name (''{'' @ x @ ''}'')
            = upperFirst (filter (\<lambda>c. c \<noteq> CHR ''_'') x @ ''Var'')"
    if "count_list x CHR ''_'' \<le> 1" "CHR ''{'' \<notin> set x" "CHR ''}'' \<notin> set x"
    using that by (simp add: display_name_def startsWith_def trim_braces replace_underscore)
  moreover have "display_name s = upperFirst s" if "\<not> startsWith s ''{''"
    using that by (simp add: display_name_def)
  ultimately show ?thesis by blast
qed

theorem display_names_witness:
  "display_name ''{user_id}'' = ''UseridVar'' \<and> display_name ''orders'' = ''Orders''"
  using display_names [of "''Api''" "[]" "''user_id''" "''orders''"]
  by (simp add: startsWith_def toUpperCase_char_def)

text \<open>
  The claim as stated fails on its own example: the name of \<open>{short_name}\<close> is
  \<open>ShortnameVar\<close>, with a small \<open>n\<close>, so the leaf key is not
  \<open>ShortNameVarItems\<close>; and of the underscores of \<open>{a_b_c}\<close> the second stays.
\<close>

theorem display_names_counterexample:
  "display_name ''{short_name}'' = ''ShortnameVar''
   \<and> display_name ''{short_name}'' \<noteq> ''ShortNameVar''
   \<and> concat (fst (forEach_segment ''Api'' 0 (split ''/{short_name}/items'' CHR ''/'') ([], [])))
       = ''ShortnameVarItems''
   \<and> concat (fst (forEach_segment ''Api'' 0 (split ''/{short_name}/items'' CHR ''/'') ([], [])))
       \<noteq> ''ShortNameVarItems''
   \<and> display_name ''{a_b_c}'' = ''Ab_cVar''"
  by (simp add: Let_def string_defs)

section \<open>Properties of parseStage and parseConfig\<close>

lemma assign_self: "assign config config = config"
  by (simp add: assign_def override_def map_add_def fun_eq_iff split: option.splits)

lemma configureLambda_fields [simp]:
  "stackName (configureLambda config) = stackName config"
  "stage (configureLambda config) = stage config"
  "apis (configureLambda config) = apis config"
  "others (configureLambda config) = others config"
  by (simp_all add: configureLambda_def split: option.splits)

lemma assign_class_fields [simp]:
  "stackName (assign_class config g) = stackName config"
  "stage (assign_class config g) = stage config"
  "apis (assign_class config g) = apis config"
  "others (assign_class config g) = others config"
  by (simp_all add: assign_class_def)

lemma assign_fields [simp]:
  "stackName (assign target source) = override (stackName target) (stackName source)"
  "stage (assign target source) = override (stage target) (stage source)"
  "apis (assign target source) = override (apis target) (apis source)"
  "others (assign target source) = others target ++ others source"
  by (simp_all add: assign_def)

text \<open>
  C9: with the sections \<open>default\<close> and the selected stage in the stage file,
  \<open>parseStage\<close> returns the \<open>default\<close> section with every key of the selected
  section written over it: under every key, the value of the selected section when it
  has the key, and the value of \<open>default\<close> otherwise. This is said of each key that
  the model of a document names and of every other key. A stage name that is no section
  of the file gives the \<open>default\<close> section, and so does no stage name (none, or
  the empty string). For \<open>default: {a: 1, b: 2}\<close> and \<open>x: {b: 3, c: 4}\<close> the stage
  \<open>x\<close> gives \<open>{a: 1, b: 3, c: 4}\<close> and no stage gives \<open>{a: 1, b: 2}\<close>.
\<close>

theorem parseStage_merge:
  "(stageConfig ''default'' = Some defaults \<and> stageConfig name = Some selected \<and> name \<noteq> []
      \<longrightarrow> (\<exists>merged.
            parseStage (this\<lparr>this_stage := Some name\<rparr>) (Loaded stageConfig)
              = Inr (Some merged)
          \<and> stackName merged =
              (case stackName selected of Some v \<Rightarrow> Some v | None \<Rightarrow> stackName defaults)
          \<and> stage merged =
              (case stage selected of Some v \<Rightarrow> Some v | None \<Rightarrow> stage defaults)
          \<and> apis merged =
              (case apis selected of Some v \<Rightarrow> Some v | None \<Rightarrow> apis defaults)
          \<and> lambdas merged =
              (case lambdas selected of Some v \<Rightarrow> Some v | None \<Rightarrow> lambdas defaults)
          \<and> apiMethods merged =
              (case apiMethods selected of Some v \<Rightarrow> Some v | None \<Rightarrow> apiMethods defaults)
          \<and> apiResources merged =
              (case apiResources selected of
                 Some v \<Rightarrow> Some v
               | None \<Rightarrow> apiResources defaults)
          \<and> apiMethodsOptions merged =
              (case apiMethodsOptions selected of
                 Some v \<Rightarrow> Some v
               | None \<Rightarrow> apiMethodsOptions defaults)
          \<and> apiDependencies merged =
              (case apiDependencies selected of
                 Some v \<Rightarrow> Some v
               | None \<Rightarrow> apiDependencies defaults)
          \<and> (\<forall>k. others merged k =
                 (case others selected k of Some v \<Rightarrow> Some v | None \<Rightarrow> others defaults k))))
   \<and> (stageConfig ''default'' = Some defaults \<and> stageConfig name = None \<and> name \<noteq> []
        \<longrightarrow> parseStage (this\<lparr>this_stage := Some name\<rparr>) (Loaded stageConfig)
              = Inr (Some defaults))
   \<and> parseStage (this\<lparr>this_stage := None\<rparr>) (Loaded stageConfig) = Inr (stageConfig ''default'')
   \<and> parseStage (this\<lparr>this_stage := Some []\<rparr>) (Loaded stageConfig)
       = Inr (stageConfig ''default'')
   \<and> parseStage (plain_instance\<lparr>this_stage := Some ''x''\<rparr>) (Loaded stage_example)
       = Inr (Some (empty_document
                      \<lparr>others := [''a'' \<mapsto> Num 1, ''b'' \<mapsto> Num 3, ''c'' \<mapsto> Num 4]\<rparr>))
   \<and> parseStage plain_instance (Loaded stage_example)
       = Inr (Some (empty_document\<lparr>others := [''a'' \<mapsto> Num 1, ''b'' \<mapsto> Num 2]\<rparr>))"
proof -
  have merge: "stageConfig ''default'' = Some defaults \<and> stageConfig name = Some selected
      \<and> name \<noteq> []
      \<longrightarrow> parseStage (this\<lparr>this_stage := Some name\<rparr>) (Loaded stageConfig)
            = Inr (Some (assign defaults selected))"
    by (simp add: parseStage_def truthy_def template_def)
  have fields:
    "stackName (assign defaults selected) =
       (case stackName selected of Some v \<Rightarrow> Some v | None \<Rightarrow> stackName defaults)"
    "stage (assign defaults selected) =
       (case stage selected of Some v \<Rightarrow> Some v | None \<Rightarrow> stage defaults)"
    "apis (assign defaults selected) =
       (case apis selected of Some v \<Rightarrow> Some v | None \<Rightarrow> apis defaults)"
    "lambdas (assign defaults selected) =
       (case lambdas selected of Some v \<Rightarrow> Some v | None \<Rightarrow> lambdas defaults)"
    "apiMethods (assign defaults selected) =
       (case apiMethods selected of Some v \<Rightarrow> Some v | None \<Rightarrow> apiMethods defaults)"
    "apiResources (assign defaults selected) =
       (case apiResources selected of Some v \<Rightarrow> Some v | None \<Rightarrow> apiResources defaults)"
    "apiMethodsOptions (assign defaults selected) =
       (case apiMethodsOptions selected of
          Some v \<Rightarrow> Some v
        | None \<Rightarrow> apiMethodsOptions defaults)"
    "apiDependencies (assign defaults selected) =
       (case apiDependencies selected of
          Some v \<Rightarrow> Some v
        | None \<Rightarrow> apiDependencies defaults)"
    by (simp_all add: assign_def override_def split: option.splits)
  have rest: "\<forall>k. others (assign defaults selected) k =
       (case others selected k of Some v \<Rightarrow> Some v | None \<Rightarrow> others defaults k)"
    by (simp add: assign_def map_add_def split: option.splits)
  have absent: "stageConfig ''default'' = Some defaults \<and> stageConfig name = None \<and> name \<noteq> []
        \<longrightarrow> parseStage (this\<lparr>this_stage := Some name\<rparr>) (Loaded stageConfig)
              = Inr (Some defaults)"
    by (simp add: parseStage_def truthy_def template_def)
  have none: "parseStage (this\<lparr>this_stage := None\<rparr>) (Loaded stageConfig)
                = Inr (stageConfig ''default'')"
    "parseStage (this\<lparr>this_stage := Some []\<rparr>) (Loaded stageConfig)
       = Inr (stageConfig ''default'')"
    by (simp_all add: parseStage_def truthy_def)
  have x: "parseStage (plain_instance\<lparr>this_stage := Some ''x''\<rparr>) (Loaded stage_example)
       = Inr (Some (empty_document
                      \<lparr>others := [''a'' \<mapsto> Num 1, ''b'' \<mapsto> Num 3, ''c'' \<mapsto> Num 4]\<rparr>))"
    by (auto simp add: parseStage_def truthy_def template_def stage_example_def
        plain_instance_def empty_document_def assign_def override_def map_add_def fun_eq_iff)
  have plain: "parseStage plain_instance (Loaded stage_example)
       = Inr (Some (empty_document\<lparr>others := [''a'' \<mapsto> Num 1, ''b'' \<mapsto> Num 2]\<rparr>))"
    by (simp add: parseStage_def truthy_def stage_example_def plain_instance_def)
  from merge fields rest absent none x plain show ?thesis by blast
qed

theorem parseStage_merge_witness:
  "\<exists>merged.
     parseStage (plain_instance\<lparr>this_stage := Some ''staging''\<rparr>) (Loaded named_stage_example)
       = Inr (Some merged)
   \<and> stackName merged = Some ''staged''
   \<and> stage merged = Some ''dev''
   \<and> apis merged = Some [\<lparr>api_name = ''Api''\<rparr>]
   \<and> others merged ''a'' = Some (Num 2)"
proof -
  have "named_stage_example ''default''
          = Some (empty_document
                    \<lparr>stackName := Some ''base'', stage := Some ''dev'',
                     apis := Some [\<lparr>api_name = ''Api''\<rparr>], others := [''a'' \<mapsto> Num 1]\<rparr>)
    \<and> named_stage_example ''staging''
          = Some (empty_document\<lparr>stackName := Some ''staged'', others := [''a'' \<mapsto> Num 2]\<rparr>)
    \<and> ''staging'' \<noteq> []"
    by (simp add: named_stage_example_def)
  with parseStage_merge [of named_stage_example
      "empty_document
         \<lparr>stackName := Some ''base'', stage := Some ''dev'',
          apis := Some [\<lparr>api_name = ''Api''\<rparr>], others := [''a'' \<mapsto> Num 1]\<rparr>"
      "''staging''"
      "empty_document\<lparr>stackName := Some ''staged'', others := [''a'' \<mapsto> Num 2]\<rparr>"
      plain_instance]
  obtain merged where
    "parseStage (plain_instance\<lparr>this_stage := Some ''staging''\<rparr>) (Loaded named_stage_example)
       = Inr (Some merged)"
    and "stackName merged =
       (case stackName (empty_document\<lparr>stackName := Some ''staged'', others := [''a'' \<mapsto> Num 2]\<rparr>) of
          Some v \<Rightarrow> Some v
        | None \<Rightarrow> stackName (empty_document
                    \<lparr>stackName := Some ''base'', stage := Some ''dev'',
                     apis := Some [\<lparr>api_name = ''Api''\<rparr>], others := [''a'' \<mapsto> Num 1]\<rparr>))"
    and "stage merged =
       (case stage (empty_document\<lparr>stackName := Some ''staged'', others := [''a'' \<mapsto> Num 2]\<rparr>) of
          Some v \<Rightarrow> Some v
        | None \<Rightarrow> stage (empty_document
                    \<lparr>stackName := Some ''base'', stage := Some ''dev'',
                     apis := Some [\<lparr>api_name = ''Api''\<rparr>], others := [''a'' \<mapsto> Num 1]\<rparr>))"
    and "apis merged =
       (case apis (empty_document\<lparr>stackName := Some ''staged'', others := [''a'' \<mapsto> Num 2]\<rparr>) of
          Some v \<Rightarrow> Some v
        | None \<Rightarrow> apis (empty_document
                    \<lparr>stackName := Some ''base'', stage := Some ''dev'',
                     apis := Some [\<lparr>api_name = ''Api''\<rparr>], others := [''a'' \<mapsto> Num 1]\<rparr>))"
    and "others merged ''a'' =
       (case others (empty_document\<lparr>stackName := Some ''staged'', others := [''a'' \<mapsto> Num 2]\<rparr>) ''a'' of
          Some v \<Rightarrow> Some v
        | None \<Rightarrow> others (empty_document
                    \<lparr>stackName := Some ''base'', stage := Some ''dev'',
                     apis := Some [\<lparr>api_name = ''Api''\<rparr>], others := [''a'' \<mapsto> Num 1]\<rparr>) ''a'')"
    by blast
  then show ?thesis by (simp add: empty_document_def)
qed

text \<open>
  The document that \<open>parseConfig\<close> returns has the stack name, the stage, the list
  \<open>apis\<close> and the other keys of the document after the two overrides and the
  merge of the stage variables: the later steps do not write them.
\<close>

lemma parseConfig_Inr:
  assumes "parseConfig this load stageConfig = Inr d"
  shows "\<exists>config merged.
           load (assign stageConfig (this_envs this)) = Inr config
         \<and> merged = assign
             ((if truthy (this_stage this) then (\<lambda>c. c\<lparr>stage := this_stage this\<rparr>) else id)
               ((if truthy (this_stack this) then (\<lambda>c. c\<lparr>stackName := this_stack this\<rparr>) else id)
                 config))
             (assign stageConfig (this_envs this))
         \<and> stackName d = stackName merged \<and> stage d = stage merged
         \<and> apis d = apis merged \<and> others d = others merged"
proof (cases "load (assign stageConfig (this_envs this))")
  case (Inl e)
  with assms show ?thesis by (simp add: parseConfig_def)
next
  case (Inr config)
  with assms show ?thesis
    by (auto simp add: parseConfig_def Let_def assign_self
        split: sum.splits returned.splits if_splits dest!: configureApiGateway_Document)
qed

text \<open>
  What the code does with the stack name: when the instance was constructed with a
  stack name that is not empty and \<open>parseConfig\<close> returns a document, the
  \<open>stackName\<close> of that document is the value of the Variable Store when it has
  the key, or else that of the stage variables when they have it, and the name of the
  instance only when neither has it. Line 273 writes the name of the instance and
  line 280 then writes the stage variables over it.
\<close>

lemma parseConfig_stackName_precedence:
  assumes "parseConfig this load stageConfig = Inr d"
    and "this_stack this = Some s" and "s \<noteq> []"
  shows "stackName d =
           (case stackName (this_envs this) of
              Some v \<Rightarrow> Some v
            | None \<Rightarrow> (case stackName stageConfig of Some v \<Rightarrow> Some v | None \<Rightarrow> Some s))"
  using parseConfig_Inr [OF assms(1)] assms(2,3)
  by (auto simp add: truthy_def override_def split: option.splits)

text \<open>
  C1: the claim fails of the code when the stage variables declare \<open>stackName\<close>.
  The instance is constructed with the stack name \<open>override\<close>, the template
  declares \<open>fromTemplate\<close> and the stage variables \<open>fromStage\<close>: the document that
  \<open>parseConfig\<close> returns has the stack name \<open>fromStage\<close>, not \<open>override\<close>.
  The override of lines 272 to 274 is undone by the merge of line 280.
\<close>

theorem parseConfig_stackName_overwritten:
  "parseConfig override_instance (\<lambda>context. Inr template_document) stage_with_stackName
     = Inr (empty_document\<lparr>stackName := Some ''fromStage''\<rparr>)
   \<and> this_stack override_instance = Some ''override''
   \<and> stackName template_document = Some ''fromTemplate''
   \<and> stackName stage_with_stackName = Some ''fromStage''"
  by (simp add: override_instance_def template_document_def stage_with_stackName_def parse_defs)




end
